theory Spec2Isabelle
  imports Complex_Main
begin

section \<open>Strings, numbers and array primitives of the source language\<close>

text \<open>
  The engine is TypeScript. A string of the source is a sequence of UTF-16 code units and
  \<open>===\<close> on strings compares these sequences, so a string is modelled as the list of its
  code units. Every calendar symbol and every Korean label of the tables is one code unit
  per character (all lie in the Basic Multilingual Plane).

  Numbers of the source are IEEE doubles. Years, ages, positions and loop counters are
  integers far below \<open>2^53\<close>, where double arithmetic is exact: they are modelled as
  \<open>int\<close> (loop counters that only count upwards from 0 or 1 as \<open>nat\<close>).
\<close>

type_synonym jsstring = "nat list"

definition ascii :: "string \<Rightarrow> jsstring" where
  "ascii s = map of_char s"

text \<open>
  The remainder operator \<open>%\<close> truncates towards zero: its sign is the dividend's. Every
  use in the source has a positive literal as divisor.
\<close>

definition js_rem :: "int \<Rightarrow> int \<Rightarrow> int" where
  "js_rem a b = sgn a * (\<bar>a\<bar> mod \<bar>b\<bar>)"

text \<open>\<open>Array.prototype.indexOf\<close>: the first index holding the value, \<open>-1\<close> when absent.\<close>

fun indexOf_from :: "'a list \<Rightarrow> 'a \<Rightarrow> int \<Rightarrow> int" where
  "indexOf_from [] x i = -1"
| "indexOf_from (y # ys) x i = (if y = x then i else indexOf_from ys x (i + 1))"

definition indexOf :: "'a list \<Rightarrow> 'a \<Rightarrow> int" where
  "indexOf xs x = indexOf_from xs x 0"

text \<open>\<open>Array.prototype.includes\<close>.\<close>

definition js_includes :: "'a list \<Rightarrow> 'a \<Rightarrow> bool" where
  "js_includes xs x = (x \<in> set xs)"

text \<open>An array read \<open>xs[i]\<close>: \<open>undefined\<close> (here \<open>None\<close>) outside the array.\<close>

definition js_index :: "'a list \<Rightarrow> int \<Rightarrow> 'a option" where
  "js_index xs i = (if 0 \<le> i \<and> i < int (length xs) then Some (xs ! nat i) else None)"

section \<open>Static data and lookup tables\<close>

text \<open>The ten Stems (U+7532 jia, U+4E59 yi, ... U+7678 gui).\<close>

abbreviation gan_jia :: jsstring where "gan_jia \<equiv> [0x7532]"
abbreviation gan_yi :: jsstring where "gan_yi \<equiv> [0x4E59]"
abbreviation gan_bing :: jsstring where "gan_bing \<equiv> [0x4E19]"
abbreviation gan_ding :: jsstring where "gan_ding \<equiv> [0x4E01]"
abbreviation gan_wu :: jsstring where "gan_wu \<equiv> [0x620A]"
abbreviation gan_ji :: jsstring where "gan_ji \<equiv> [0x5DF1]"
abbreviation gan_geng :: jsstring where "gan_geng \<equiv> [0x5E9A]"
abbreviation gan_xin :: jsstring where "gan_xin \<equiv> [0x8F9B]"
abbreviation gan_ren :: jsstring where "gan_ren \<equiv> [0x58EC]"
abbreviation gan_gui :: jsstring where "gan_gui \<equiv> [0x7678]"

text \<open>The twelve Branches (U+5B50 zi, U+4E11 chou, ... U+4EA5 hai).\<close>

abbreviation zhi_zi :: jsstring where "zhi_zi \<equiv> [0x5B50]"
abbreviation zhi_chou :: jsstring where "zhi_chou \<equiv> [0x4E11]"
abbreviation zhi_yin :: jsstring where "zhi_yin \<equiv> [0x5BC5]"
abbreviation zhi_mao :: jsstring where "zhi_mao \<equiv> [0x536F]"
abbreviation zhi_chen :: jsstring where "zhi_chen \<equiv> [0x8FB0]"
abbreviation zhi_si :: jsstring where "zhi_si \<equiv> [0x5DF3]"
abbreviation zhi_wu :: jsstring where "zhi_wu \<equiv> [0x5348]"
abbreviation zhi_wei :: jsstring where "zhi_wei \<equiv> [0x672A]"
abbreviation zhi_shen :: jsstring where "zhi_shen \<equiv> [0x7533]"
abbreviation zhi_you :: jsstring where "zhi_you \<equiv> [0x9149]"
abbreviation zhi_xu :: jsstring where "zhi_xu \<equiv> [0x620C]"
abbreviation zhi_hai :: jsstring where "zhi_hai \<equiv> [0x4EA5]"

definition GAN :: "jsstring list" where
  "GAN = [gan_jia, gan_yi, gan_bing, gan_ding, gan_wu,
          gan_ji, gan_geng, gan_xin, gan_ren, gan_gui]"

definition ZHI :: "jsstring list" where
  "ZHI = [zhi_zi, zhi_chou, zhi_yin, zhi_mao, zhi_chen, zhi_si,
          zhi_wu, zhi_wei, zhi_shen, zhi_you, zhi_xu, zhi_hai]"

text \<open>The Korean readings, one Hangul syllable each.\<close>

definition GAN_KOR :: "jsstring list" where
  "GAN_KOR = [[0xAC11], [0xC744], [0xBCD1], [0xC815], [0xBB34],
              [0xAE30], [0xACBD], [0xC2E0], [0xC784], [0xACC4]]"

definition ZHI_KOR :: "jsstring list" where
  "ZHI_KOR = [[0xC790], [0xCD95], [0xC778], [0xBB18], [0xC9C4], [0xC0AC],
              [0xC624], [0xBBF8], [0xC2E0], [0xC720], [0xC220], [0xD574]]"

datatype ElementType = Wood | Fire | Earth | Metal | Water

definition ELEMENT_MAP :: "jsstring \<rightharpoonup> ElementType" where
  "ELEMENT_MAP = map_of
     [(gan_jia, Wood), (gan_yi, Wood), (zhi_yin, Wood), (zhi_mao, Wood),
      (gan_bing, Fire), (gan_ding, Fire), (zhi_si, Fire), (zhi_wu, Fire),
      (gan_wu, Earth), (gan_ji, Earth), (zhi_chen, Earth), (zhi_xu, Earth),
      (zhi_chou, Earth), (zhi_wei, Earth),
      (gan_geng, Metal), (gan_xin, Metal), (zhi_shen, Metal), (zhi_you, Metal),
      (gan_ren, Water), (gan_gui, Water), (zhi_hai, Water), (zhi_zi, Water)]"

fun COLOR_MAP :: "ElementType \<Rightarrow> jsstring" where
  "COLOR_MAP Wood = ascii ''#4A7c59''"
| "COLOR_MAP Fire = ascii ''#D9534F''"
| "COLOR_MAP Earth = ascii ''#Eebb4d''"
| "COLOR_MAP Metal = ascii ''#Aaaaaa''"
| "COLOR_MAP Water = ascii ''#292b2c''"

text \<open>
  The ten Ten-God labels, two Hangul syllables each, and the label that marks the Day
  Master itself.
\<close>

abbreviation bigyeon :: jsstring where "bigyeon \<equiv> [0xBE44, 0xACAC]"
abbreviation geopjae :: jsstring where "geopjae \<equiv> [0xAC81, 0xC7AC]"
abbreviation siksin :: jsstring where "siksin \<equiv> [0xC2DD, 0xC2E0]"
abbreviation sanggwan :: jsstring where "sanggwan \<equiv> [0xC0C1, 0xAD00]"
abbreviation pyeonjae :: jsstring where "pyeonjae \<equiv> [0xD3B8, 0xC7AC]"
abbreviation jeongjae :: jsstring where "jeongjae \<equiv> [0xC815, 0xC7AC]"
abbreviation pyeongwan :: jsstring where "pyeongwan \<equiv> [0xD3B8, 0xAD00]"
abbreviation jeonggwan :: jsstring where "jeonggwan \<equiv> [0xC815, 0xAD00]"
abbreviation pyeonin :: jsstring where "pyeonin \<equiv> [0xD3B8, 0xC778]"
abbreviation jeongin :: jsstring where "jeongin \<equiv> [0xC815, 0xC778]"
abbreviation ilwon :: jsstring where "ilwon \<equiv> [0xC77C, 0xC6D0]"

text \<open>Rows: the Day Stem (0 = jia ... 9 = gui). Columns: the target Stem.\<close>

definition TEN_GODS_MAP :: "jsstring list list" where
  "TEN_GODS_MAP =
    [[bigyeon, geopjae, siksin, sanggwan, pyeonjae, jeongjae, pyeongwan, jeonggwan, pyeonin, jeongin],
     [geopjae, bigyeon, sanggwan, siksin, jeongjae, pyeonjae, jeonggwan, pyeongwan, jeongin, pyeonin],
     [pyeonin, jeongin, bigyeon, geopjae, siksin, sanggwan, pyeonjae, jeongjae, pyeongwan, jeonggwan],
     [jeongin, pyeonin, geopjae, bigyeon, sanggwan, siksin, jeongjae, pyeonjae, jeonggwan, pyeongwan],
     [pyeongwan, jeonggwan, pyeonin, jeongin, bigyeon, geopjae, siksin, sanggwan, pyeonjae, jeongjae],
     [jeonggwan, pyeongwan, jeongin, pyeonin, geopjae, bigyeon, sanggwan, siksin, jeongjae, pyeonjae],
     [pyeonjae, jeongjae, pyeongwan, jeonggwan, pyeonin, jeongin, bigyeon, geopjae, siksin, sanggwan],
     [jeongjae, pyeonjae, jeonggwan, pyeongwan, jeongin, pyeonin, geopjae, bigyeon, sanggwan, siksin],
     [siksin, sanggwan, pyeonjae, jeongjae, pyeongwan, jeonggwan, pyeonin, jeongin, bigyeon, geopjae],
     [sanggwan, siksin, jeongjae, pyeonjae, jeonggwan, pyeongwan, jeongin, pyeonin, geopjae, bigyeon]]"

text \<open>The main-qi Stem of each Branch.\<close>

definition BRANCH_MAIN_QI :: "jsstring \<rightharpoonup> jsstring" where
  "BRANCH_MAIN_QI = map_of
     [(zhi_zi, gan_gui), (zhi_chou, gan_ji), (zhi_yin, gan_jia), (zhi_mao, gan_yi),
      (zhi_chen, gan_wu), (zhi_si, gan_bing), (zhi_wu, gan_ding), (zhi_wei, gan_ji),
      (zhi_shen, gan_geng), (zhi_you, gan_xin), (zhi_xu, gan_wu), (zhi_hai, gan_ren)]"

section \<open>Helper functions\<close>

definition getKoreanChar :: "jsstring \<Rightarrow> jsstring" where
  "getKoreanChar hanja =
     (let ganIdx = indexOf GAN hanja in
      if ganIdx \<noteq> -1 then GAN_KOR ! nat ganIdx
      else let zhiIdx = indexOf ZHI hanja in
           if zhiIdx \<noteq> -1 then ZHI_KOR ! nat zhiIdx
           else [])"

text \<open>
  \<open>getTenGod\<close>. A Branch is replaced by its main-qi Stem; a stem that the table lookup
  leaves \<open>undefined\<close> has index \<open>-1\<close> and the result is the empty string.
\<close>

definition getTenGod :: "jsstring \<Rightarrow> jsstring \<Rightarrow> jsstring" where
  "getTenGod dayStem target =
     (if dayStem = target then bigyeon
      else
        let dayIdx = indexOf GAN dayStem;
            targetStem = (if js_includes ZHI target then BRANCH_MAIN_QI target else Some target);
            targetIdx = (case targetStem of None \<Rightarrow> -1 | Some s \<Rightarrow> indexOf GAN s)
        in if dayIdx = -1 \<or> targetIdx = -1 then []
           else TEN_GODS_MAP ! nat dayIdx ! nat targetIdx)"

text \<open>
  \<open>getGanZhiIndex\<close>: the scan \<open>for (let i = 0; i < 60; i++)\<close> that returns the first
  position whose Stem and Branch are the given ones, and 0 when the scan ends without a
  match. The two indices \<open>i % 10\<close> and \<open>i % 12\<close> are always inside the arrays. (The
  source also computes \<open>ganIdx\<close> and \<open>zhiIdx\<close> at the top and never reads them.)
\<close>

function getGanZhiIndex_loop :: "nat \<Rightarrow> jsstring \<Rightarrow> jsstring \<Rightarrow> nat" where
  "getGanZhiIndex_loop i stem branch =
     (if i < 60 then
        (if GAN ! (i mod 10) = stem \<and> ZHI ! (i mod 12) = branch then i
         else getGanZhiIndex_loop (i + 1) stem branch)
      else 0)"
  by pat_completeness auto
termination
  by (relation "measure (\<lambda>(i, stem, branch). 60 - i)") auto

definition getGanZhiIndex :: "jsstring \<Rightarrow> jsstring \<Rightarrow> nat" where
  "getGanZhiIndex stem branch = getGanZhiIndex_loop 0 stem branch"

text \<open>
  \<open>getGanZhiFromIndex\<close>: the position is normalised by \<open>((index % 60) + 60) % 60\<close> with
  the truncating remainder of the source; the result is the object \<open>{stem, branch}\<close>.
\<close>

definition normalizedIndex :: "int \<Rightarrow> int" where
  "normalizedIndex index = js_rem (js_rem index 60 + 60) 60"

record GanZhi =
  stem :: jsstring
  branch :: jsstring

definition getGanZhiFromIndex :: "int \<Rightarrow> GanZhi" where
  "getGanZhiFromIndex index =
     \<lparr>stem = GAN ! nat (js_rem (normalizedIndex index) 10),
      branch = ZHI ! nat (js_rem (normalizedIndex index) 12)\<rparr>"

section \<open>The Decade Cycle (Daeun)\<close>

datatype gender = male | female

text \<open>
  The direction of the walk, the first four statements of \<open>calculateDaeun\<close>. A year Stem
  outside the table has index \<open>-1\<close>, and \<open>-1 % 2\<close> is \<open>-1\<close>: such a year counts as Yin.
\<close>

definition isForward :: "jsstring \<Rightarrow> gender \<Rightarrow> bool" where
  "isForward yearStem gender =
     (let yearStemIdx = indexOf GAN yearStem;
          isYangYear = (js_rem yearStemIdx 2 = 0);
          isMale = (gender = male)
      in (isYangYear \<and> isMale) \<or> (\<not> isYangYear \<and> \<not> isMale))"

definition daysInMonth :: "int list" where
  "daysInMonth = [31, 28, 31, 30, 31, 30, 31, 31, 30, 31, 30, 31]"

text \<open>
  The starting age. A birth month outside 1..12 reads \<open>undefined\<close> from \<open>daysInMonth\<close>
  and every number computed from it is \<open>NaN\<close>: the ages are optional values and \<open>None\<close>
  stands for \<open>NaN\<close>. \<open>Math.round\<close> rounds a half upwards, as \<open>round\<close> does.

  The arithmetic is carried out on rationals. In the source, \<open>daysToJeolgi\<close> is an
  integer, ten thirds of it is never within a sixth of a half-integer, so the double
  \<open>Math.round((daysToJeolgi / 3) * 10)\<close> is the integer computed here; the final division
  by 10 yields the double nearest to the rational of the model, with the same floor.
\<close>

definition daeun_startAge :: "int \<Rightarrow> int \<Rightarrow> rat option" where
  "daeun_startAge birthMonth birthDay =
     (case js_index daysInMonth (birthMonth - 1) of
        None \<Rightarrow> None
      | Some d \<Rightarrow>
          let r = round (of_int d / 2 - of_int birthDay + 15 :: rat);
              daysToJeolgi = (if r < 0 then \<bar>r\<bar> else r)
          in Some (of_int (round (of_int daysToJeolgi / 3 * 10 :: rat)) / 10))"

record DaeunEntry =
  startAge :: "rat option"
  endAge :: "int option"
  stem :: jsstring
  branch :: jsstring
  stemKorean :: jsstring
  branchKorean :: jsstring
  startYear :: "int option"

text \<open>
  The body of the loop of \<open>calculateDaeun\<close>: the entry pushed at iteration \<open>i\<close>. (A
  parameter that shares its name with a record field carries a prime.)
\<close>

definition daeun_entry :: "int \<Rightarrow> bool \<Rightarrow> int \<Rightarrow> rat option \<Rightarrow> nat \<Rightarrow> DaeunEntry" where
  "daeun_entry birthYear isFwd monthGanZhiIdx startAge' i =
     (let ganZhiIdx = (if isFwd then monthGanZhiIdx + int i + 1
                       else monthGanZhiIdx - int i - 1);
          gz = getGanZhiFromIndex ganZhiIdx;
          ageStart = (if i = 0 then startAge'
                      else map_option (\<lambda>s. of_int (\<lfloor>s\<rfloor> + int i * 10)) startAge');
          ageEnd = map_option (\<lambda>s. \<lfloor>s\<rfloor> + (int i + 1) * 10 - 1) startAge'
      in \<lparr>startAge = ageStart,
          endAge = ageEnd,
          stem = GanZhi.stem gz,
          branch = GanZhi.branch gz,
          stemKorean = getKoreanChar (GanZhi.stem gz),
          branchKorean = getKoreanChar (GanZhi.branch gz),
          startYear = map_option (\<lambda>a. birthYear + \<lfloor>a\<rfloor>) ageStart\<rparr>)"

function daeun_loop ::
  "nat \<Rightarrow> int \<Rightarrow> bool \<Rightarrow> int \<Rightarrow> rat option \<Rightarrow> DaeunEntry list \<Rightarrow> DaeunEntry list" where
  "daeun_loop i birthYear isFwd monthGanZhiIdx startAge' daeunList =
     (if i < 13 then
        daeun_loop (i + 1) birthYear isFwd monthGanZhiIdx startAge'
          (daeunList @ [daeun_entry birthYear isFwd monthGanZhiIdx startAge' i])
      else daeunList)"
  by pat_completeness auto
termination
  by (relation "measure (\<lambda>(i, birthYear, isFwd, monthGanZhiIdx, startAge', daeunList). 13 - i)") auto

text \<open>The result is the object \<open>{daeun, startAge}\<close>, here a pair.\<close>

definition calculateDaeun ::
  "int \<Rightarrow> int \<Rightarrow> int \<Rightarrow> gender \<Rightarrow> jsstring \<Rightarrow> jsstring \<Rightarrow> jsstring
     \<Rightarrow> DaeunEntry list \<times> rat option" where
  "calculateDaeun birthYear birthMonth birthDay gender monthStem monthBranch yearStem =
     (let monthGanZhiIdx = int (getGanZhiIndex monthStem monthBranch);
          startAge = daeun_startAge birthMonth birthDay
      in (daeun_loop 0 birthYear (isForward yearStem gender) monthGanZhiIdx startAge [],
          startAge))"

section \<open>The Year Cycle (Saeun)\<close>

record SaeunEntry =
  year :: int
  age :: int
  stem :: jsstring
  branch :: jsstring
  stemKorean :: jsstring
  branchKorean :: jsstring

text \<open>The body of the loop of \<open>calculateSaeun\<close>: the entry pushed for \<open>age\<close>.\<close>

definition saeun_entry :: "int \<Rightarrow> nat \<Rightarrow> SaeunEntry" where
  "saeun_entry birthYear age' =
     (let currentYear = birthYear + int age' - 1;
          yearOffset = currentYear - 1984;
          ganZhiIdx = js_rem (js_rem yearOffset 60 + 60) 60;
          stem = GAN ! nat (js_rem ganZhiIdx 10);
          branch = ZHI ! nat (js_rem ganZhiIdx 12)
      in \<lparr>year = currentYear,
          age = int age',
          stem = stem,
          branch = branch,
          stemKorean = getKoreanChar stem,
          branchKorean = getKoreanChar branch\<rparr>)"

function saeun_loop :: "nat \<Rightarrow> int \<Rightarrow> SaeunEntry list \<Rightarrow> SaeunEntry list" where
  "saeun_loop age' birthYear saeunList =
     (if age' \<le> 110 then
        saeun_loop (age' + 1) birthYear (saeunList @ [saeun_entry birthYear age'])
      else saeunList)"
  by pat_completeness auto
termination
  by (relation "measure (\<lambda>(age', birthYear, saeunList). 111 - age')") auto

definition calculateSaeun :: "int \<Rightarrow> SaeunEntry list" where
  "calculateSaeun birthYear = saeun_loop 1 birthYear []"

section \<open>The Month Cycle (Wolun)\<close>

record WolunEntry =
  year :: int
  month :: int
  stem :: jsstring
  branch :: jsstring
  stemKorean :: jsstring
  branchKorean :: jsstring

text \<open>
  The body of the inner loop of \<open>calculateWolun\<close>. \<open>yearGan\<close> is read from \<open>GAN\<close>, so its
  index \<open>yearGanIdx\<close> lies inside the ten-element array of starting indices.
\<close>

definition wolun_entry :: "int \<Rightarrow> nat \<Rightarrow> WolunEntry" where
  "wolun_entry currentYear monthNum =
     (let yearGanZhiIdx = js_rem (js_rem (currentYear - 1984) 60 + 60) 60;
          yearGan = GAN ! nat (js_rem yearGanZhiIdx 10);
          yearGanIdx = indexOf GAN yearGan;
          monthStemStartIdx = [2, 4, 6, 8, 0, 2, 4, 6, 8, 0] ! nat yearGanIdx;
          monthStemIdx = js_rem (monthStemStartIdx + int monthNum - 1) 10;
          monthStem = GAN ! nat monthStemIdx;
          monthBranchIdx = js_rem (int monthNum + 1) 12;
          monthBranch = ZHI ! nat monthBranchIdx
      in \<lparr>year = currentYear,
          month = int monthNum,
          stem = monthStem,
          branch = monthBranch,
          stemKorean = getKoreanChar monthStem,
          branchKorean = getKoreanChar monthBranch\<rparr>)"

function wolun_month_loop :: "nat \<Rightarrow> int \<Rightarrow> WolunEntry list \<Rightarrow> WolunEntry list" where
  "wolun_month_loop monthNum currentYear wolunList =
     (if monthNum \<le> 12 then
        wolun_month_loop (monthNum + 1) currentYear
          (wolunList @ [wolun_entry currentYear monthNum])
      else wolunList)"
  by pat_completeness auto
termination
  by (relation "measure (\<lambda>(monthNum, currentYear, wolunList). 13 - monthNum)") auto

function wolun_year_loop :: "nat \<Rightarrow> int \<Rightarrow> WolunEntry list \<Rightarrow> WolunEntry list" where
  "wolun_year_loop yearOffset birthYear wolunList =
     (if yearOffset < 60 then
        wolun_year_loop (yearOffset + 1) birthYear
          (wolun_month_loop 1 (birthYear + int yearOffset) wolunList)
      else wolunList)"
  by pat_completeness auto
termination
  by (relation "measure (\<lambda>(yearOffset, birthYear, wolunList). 60 - yearOffset)") auto

definition calculateWolun :: "int \<Rightarrow> WolunEntry list" where
  "calculateWolun birthYear = wolun_year_loop 0 birthYear []"

section \<open>The Pillar builder\<close>

record Pillar =
  stem :: jsstring
  stemKorean :: jsstring
  stemTenGod :: jsstring
  branch :: jsstring
  branchKorean :: jsstring
  branchTenGod :: jsstring
  element :: ElementType
  color :: "jsstring option"

text \<open>
  \<open>createPillar\<close> is a closure of \<open>analyzeSaju\<close> over the Day Stem \<open>dayStem\<close>, here its
  first argument. \<open>ELEMENT_MAP[stem] || "Earth"\<close> falls back to Earth for an unknown
  symbol, and \<open>COLOR_MAP[undefined]\<close> is \<open>undefined\<close> (\<open>None\<close>).
\<close>

definition createPillar :: "jsstring \<Rightarrow> jsstring \<Rightarrow> jsstring \<Rightarrow> Pillar" where
  "createPillar dayStem stem' branch' =
     \<lparr>stem = stem',
      stemKorean = getKoreanChar stem',
      stemTenGod = (if stem' = dayStem then ilwon else getTenGod dayStem stem'),
      branch = branch',
      branchKorean = getKoreanChar branch',
      branchTenGod = getTenGod dayStem branch',
      element = (case ELEMENT_MAP stem' of Some el \<Rightarrow> el | None \<Rightarrow> Earth),
      color = map_option COLOR_MAP (ELEMENT_MAP stem')\<rparr>"

text \<open>
  The four pillars that \<open>analyzeSaju\<close> builds from the eight symbols delivered by the
  calendar converter.
\<close>

record FourPillars =
  yearPillar :: Pillar
  monthPillar :: Pillar
  dayPillar :: Pillar
  hourPillar :: Pillar

definition analyzeSaju_pillars ::
  "jsstring \<Rightarrow> jsstring \<Rightarrow> jsstring \<Rightarrow> jsstring \<Rightarrow> jsstring \<Rightarrow> jsstring \<Rightarrow> jsstring \<Rightarrow> jsstring
     \<Rightarrow> FourPillars" where
  "analyzeSaju_pillars yearStem yearBranch monthStem monthBranch dayStem dayBranch
       hourStem hourBranch =
     \<lparr>yearPillar = createPillar dayStem yearStem yearBranch,
      monthPillar = createPillar dayStem monthStem monthBranch,
      dayPillar = createPillar dayStem dayStem dayBranch,
      hourPillar = createPillar dayStem hourStem hourBranch\<rparr>"

section \<open>The Five-Tigers rule in the words of the specification\<close>

text \<open>
  Following the specification's words, for comparison with \<open>calculateWolun\<close>: the cycle
  position of a calendar year is \<open>((year - 1984) mod 60 + 60) mod 60\<close>, its Stem ordinal is
  that position modulo 10, and the starting Stem index of the Tiger month is given by the
  correspondence {0,5} to 2, {1,6} to 4, {2,7} to 6, {3,8} to 8, {4,9} to 0.
\<close>

definition spec_yearStemOrdinal :: "int \<Rightarrow> nat" where
  "spec_yearStemOrdinal y = nat (((y - 1984) mod 60 + 60) mod 60) mod 10"

definition spec_fiveTigersStart :: "nat \<Rightarrow> nat" where
  "spec_fiveTigersStart ord =
     (if ord \<in> {0, 5} then 2
      else if ord \<in> {1, 6} then 4
      else if ord \<in> {2, 7} then 6
      else if ord \<in> {3, 8} then 8
      else 0)"

section \<open>Arithmetic of the remainder operator\<close>

lemma js_rem_nonneg: "0 \<le> a \<Longrightarrow> js_rem a b = a mod \<bar>b\<bar>"
  by (simp add: js_rem_def sgn_if)

lemma js_rem_60_cong: "js_rem a 60 mod 60 = a mod 60"
  by (cases "a < 0") (simp_all add: js_rem_def sgn_if mod_minus_eq)

lemma js_rem_60_bounds: "- 60 < js_rem a 60"
proof -
  have "\<bar>a\<bar> mod 60 < 60" by simp
  moreover have "0 \<le> \<bar>a\<bar> mod 60" by simp
  ultimately show ?thesis
    unfolding js_rem_def by (cases "a < 0"; cases "a = 0") (simp_all add: sgn_if)
qed

lemma js_norm_mod: "js_rem (js_rem p 60 + 60) 60 = p mod 60"
proof -
  have "0 \<le> js_rem p 60 + 60" using js_rem_60_bounds [of p] by simp
  then have "js_rem (js_rem p 60 + 60) 60 = (js_rem p 60 + 60) mod 60"
    by (simp add: js_rem_nonneg)
  also have "\<dots> = js_rem p 60 mod 60" by simp
  finally show ?thesis by (simp add: js_rem_60_cong)
qed

lemma normalizedIndex_mod: "normalizedIndex p = p mod 60"
  by (simp add: normalizedIndex_def js_norm_mod)

section \<open>The sixty-term cycle\<close>

lemma parity_match: "i mod 10 mod 2 = i mod 12 mod (2::nat)"
  by (simp add: mod_mod_cancel)

lemma dvd_10_12_60:
  assumes "10 dvd d" and "12 dvd d"
  shows "60 dvd (d::nat)"
proof -
  have a: "60 dvd 6 * d" using mult_dvd_mono [OF dvd_refl assms(1), of 6] by simp
  have b: "60 dvd 5 * d" using mult_dvd_mono [OF dvd_refl assms(2), of 5] by simp
  have "60 dvd 6 * d - 5 * d" using a b by (rule dvd_diff_nat)
  then show ?thesis by simp
qed

lemma crt_unique_le:
  assumes "j \<le> p" and "p < 60" and "j mod 10 = p mod 10" and "j mod 12 = p mod 12"
  shows "j = (p::nat)"
proof -
  have "10 dvd p - j" using assms(3) mod_eq_dvd_iff_nat [OF assms(1), of 10] by simp
  moreover have "12 dvd p - j" using assms(4) mod_eq_dvd_iff_nat [OF assms(1), of 12] by simp
  ultimately have "60 dvd p - j" by (rule dvd_10_12_60)
  moreover have "p - j < 60" using assms(2) by simp
  ultimately have "p - j = 0" using nat_dvd_not_less by blast
  then show ?thesis using assms(1) by simp
qed

lemma crt_unique:
  "j < 60 \<Longrightarrow> p < 60 \<Longrightarrow> j mod 10 = p mod 10 \<Longrightarrow> j mod 12 = p mod 12 \<Longrightarrow> j = (p::nat)"
  using crt_unique_le [of j p] crt_unique_le [of p j] by (cases "j \<le> p") simp_all

lemma crt_exists:
  assumes "a < 10" and "b < 12" and "a mod 2 = b mod 2"
  shows "\<exists>i<60. i mod 10 = a \<and> i mod 12 = (b::nat)"
proof -
  have "(a + b) mod 2 = (a mod 2 + b mod 2) mod 2" by (simp add: mod_add_eq)
  also have "\<dots> = (b mod 2 + b mod 2) mod 2" by (simp only: assms(3))
  also have "\<dots> = (2 * b) mod 2" by (simp add: mod_add_eq)
  finally have "even (a + b)" by (simp add: even_iff_mod_2_eq_zero)
  then obtain k where k: "a + b = 2 * k" by (rule dvdE)
  let ?i = "(6 * a + 55 * b) mod 60"
  have e10: "6 * a + 55 * b = a + 10 * (5 * b + k)" using k by simp
  have e12: "6 * a + 55 * b = b + 12 * (4 * b + k)" using k by simp
  have "?i mod 10 = (6 * a + 55 * b) mod 10" by (simp add: mod_mod_cancel)
  also have "\<dots> = (a + 10 * (5 * b + k)) mod 10" by (simp only: e10)
  also have "\<dots> = a" using assms(1) by (simp only: mod_mult_self2 mod_less)
  finally have m10: "?i mod 10 = a" .
  have "?i mod 12 = (6 * a + 55 * b) mod 12" by (simp add: mod_mod_cancel)
  also have "\<dots> = (b + 12 * (4 * b + k)) mod 12" by (simp only: e12)
  also have "\<dots> = b" using assms(2) by (simp only: mod_mult_self2 mod_less)
  finally have m12: "?i mod 12 = b" .
  have "?i < 60" by simp
  with m10 m12 show ?thesis by blast
qed

section \<open>Facts about the tables\<close>

lemma length_GAN: "length GAN = 10"
  by (simp add: GAN_def)

lemma length_ZHI: "length ZHI = 12"
  by (simp add: ZHI_def)

lemma distinct_GAN: "distinct GAN"
  by (simp add: GAN_def)

lemma distinct_ZHI: "distinct ZHI"
  by (simp add: ZHI_def)

lemma GAN_nth_eq: "a < 10 \<Longrightarrow> b < 10 \<Longrightarrow> (GAN ! a = GAN ! b) = (a = b)"
  by (simp add: nth_eq_iff_index_eq distinct_GAN length_GAN)

lemma ZHI_nth_eq: "a < 12 \<Longrightarrow> b < 12 \<Longrightarrow> (ZHI ! a = ZHI ! b) = (a = b)"
  by (simp add: nth_eq_iff_index_eq distinct_ZHI length_ZHI)

section \<open>The loops as list operations\<close>

declare getGanZhiIndex_loop.simps [simp del]

lemma getGanZhiIndex_loop_find:
  "getGanZhiIndex_loop i s b =
     (case List.find (\<lambda>j. GAN ! (j mod 10) = s \<and> ZHI ! (j mod 12) = b) [i..<60] of
        Some j \<Rightarrow> j | None \<Rightarrow> 0)"
proof (induction i s b rule: getGanZhiIndex_loop.induct)
  case (1 i s b)
  show ?case
  proof (cases "i < 60")
    case True
    then have upt: "[i..<60] = i # [i + 1..<60]" by (simp add: upt_conv_Cons)
    show ?thesis
      using True 1 by (subst getGanZhiIndex_loop.simps) (simp add: upt)
  next
    case False
    then show ?thesis by (subst getGanZhiIndex_loop.simps) simp
  qed
qed
declare daeun_loop.simps [simp del]

lemma daeun_loop_map:
  "daeun_loop i y f m s acc = acc @ map (daeun_entry y f m s) [i..<13]"
proof (induction i y f m s acc rule: daeun_loop.induct)
  case (1 i y f m s acc)
  show ?case
  proof (cases "i < 13")
    case True
    then have upt: "[i..<13] = i # [i + 1..<13]" by (simp add: upt_conv_Cons)
    show ?thesis
      using True 1 by (subst daeun_loop.simps) (simp add: upt)
  next
    case False
    then show ?thesis by (subst daeun_loop.simps) simp
  qed
qed

lemma getGanZhiFromIndex_mod:
  "getGanZhiFromIndex p =
     \<lparr>GanZhi.stem = GAN ! (nat (p mod 60) mod 10), branch = ZHI ! (nat (p mod 60) mod 12)\<rparr>"
proof -
  have "0 \<le> p mod 60" by simp
  then show ?thesis
    by (simp add: getGanZhiFromIndex_def normalizedIndex_mod js_rem_nonneg nat_mod_distrib)
qed

lemma getGanZhiIndex_pair:
  assumes "n < 60"
  shows "getGanZhiIndex (GAN ! (n mod 10)) (ZHI ! (n mod 12)) = n"
proof -
  let ?P = "\<lambda>j. GAN ! (j mod 10) = GAN ! (n mod 10) \<and> ZHI ! (j mod 12) = ZHI ! (n mod 12)"
  have "\<not> ?P j" if "j < n" for j
  proof
    assume "?P j"
    then have "j mod 10 = n mod 10" and "j mod 12 = n mod 12"
      by (simp_all add: GAN_nth_eq ZHI_nth_eq)
    moreover have "j < 60" using that assms by simp
    ultimately have "j = n" using assms by (rule crt_unique [rotated 2])
    with that show False by simp
  qed
  then have "List.find ?P [0..<60] = Some n"
    using assms by (simp add: find_Some_iff) (rule exI [of _ n], simp)
  then show ?thesis
    by (simp add: getGanZhiIndex_def getGanZhiIndex_loop_find)
qed

lemma getGanZhiIndex_no_match:
  assumes "\<forall>i<60. \<not> (GAN ! (i mod 10) = s \<and> ZHI ! (i mod 12) = b)"
  shows "getGanZhiIndex s b = 0"
proof -
  have "List.find (\<lambda>j. GAN ! (j mod 10) = s \<and> ZHI ! (j mod 12) = b) [0..<60] = None"
    using assms by (simp add: find_None_iff)
  then show ?thesis
    by (simp add: getGanZhiIndex_def getGanZhiIndex_loop_find)
qed

lemma parity_no_match:
  assumes "a < 10" and "c < 12" and "a mod 2 \<noteq> c mod 2"
  shows "\<forall>i<60. \<not> (GAN ! (i mod 10) = GAN ! a \<and> ZHI ! (i mod 12) = ZHI ! c)"
proof (intro allI impI notI)
  fix i :: nat
  assume "GAN ! (i mod 10) = GAN ! a \<and> ZHI ! (i mod 12) = ZHI ! c"
  then have "i mod 10 = a" and "i mod 12 = c"
    using assms(1,2) by (simp_all add: GAN_nth_eq ZHI_nth_eq)
  then have "a mod 2 = c mod 2" using parity_match [of i] by simp
  with assms(3) show False by simp
qed

declare saeun_loop.simps [simp del]

lemma saeun_loop_map:
  "saeun_loop a y acc = acc @ map (saeun_entry y) [a..<111]"
proof (induction a y acc rule: saeun_loop.induct)
  case (1 a y acc)
  show ?case
  proof (cases "a \<le> 110")
    case True
    then have upt: "[a..<111] = a # [a + 1..<111]" by (simp add: upt_conv_Cons)
    show ?thesis
      using True 1 by (subst saeun_loop.simps) (simp add: upt)
  next
    case False
    then show ?thesis by (subst saeun_loop.simps) simp
  qed
qed

declare wolun_month_loop.simps [simp del]

lemma wolun_month_loop_map:
  "wolun_month_loop m y acc = acc @ map (wolun_entry y) [m..<13]"
proof (induction m y acc rule: wolun_month_loop.induct)
  case (1 m y acc)
  show ?case
  proof (cases "m \<le> 12")
    case True
    then have upt: "[m..<13] = m # [m + 1..<13]" by (simp add: upt_conv_Cons)
    show ?thesis
      using True 1 by (subst wolun_month_loop.simps) (simp add: upt)
  next
    case False
    then show ?thesis by (subst wolun_month_loop.simps) simp
  qed
qed

declare wolun_year_loop.simps [simp del]

lemma wolun_year_loop_concat:
  "wolun_year_loop k y acc =
     acc @ concat (map (\<lambda>j. map (wolun_entry (y + int j)) [1..<13]) [k..<60])"
proof (induction k y acc rule: wolun_year_loop.induct)
  case (1 k y acc)
  show ?case
  proof (cases "k < 60")
    case True
    then have upt: "[k..<60] = k # [k + 1..<60]" by (simp add: upt_conv_Cons)
    show ?thesis
      using True 1 by (subst wolun_year_loop.simps) (simp add: upt wolun_month_loop_map)
  next
    case False
    then show ?thesis by (subst wolun_year_loop.simps) simp
  qed
qed

lemma calculateDaeun_map:
  "calculateDaeun birthYear birthMonth birthDay g monthStem monthBranch yearStem =
     (map (daeun_entry birthYear (isForward yearStem g)
             (int (getGanZhiIndex monthStem monthBranch))
             (daeun_startAge birthMonth birthDay)) [0..<13],
      daeun_startAge birthMonth birthDay)"
  by (simp add: calculateDaeun_def daeun_loop_map Let_def)

lemma calculateSaeun_map: "calculateSaeun y = map (saeun_entry y) [1..<111]"
  by (simp add: calculateSaeun_def saeun_loop_map)

lemma calculateWolun_concat:
  "calculateWolun y = concat (map (\<lambda>j. map (wolun_entry (y + int j)) [1..<13]) [0..<60])"
  by (simp add: calculateWolun_def wolun_year_loop_concat)

text \<open>Blocks of equal length laid end to end.\<close>

lemma length_concat_blocks:
  assumes "\<And>k. k < n \<Longrightarrow> length (f k) = m"
  shows "length (concat (map f [0..<n])) = n * m"
  using assms by (induction n) simp_all

lemma nth_concat_blocks:
  assumes "\<And>k. k < n \<Longrightarrow> length (f k) = m" and "k < n" and "j < m"
  shows "concat (map f [0..<n]) ! (k * m + j) = f k ! j"
  using assms
proof (induction n)
  case 0
  then show ?case by simp
next
  case (Suc n)
  have len: "length (concat (map f [0..<n])) = n * m"
    using Suc.prems(1) by (simp add: length_concat_blocks)
  show ?case
  proof (cases "k < n")
    case True
    have "k * m + j < Suc k * m" using Suc.prems(3) by simp
    also have "\<dots> \<le> n * m" using True by (simp only: mult_le_mono1 Suc_leI)
    finally have "k * m + j < n * m" .
    then show ?thesis
      using Suc.IH [OF _ True Suc.prems(3)] Suc.prems(1) by (simp add: nth_append len)
  next
    case False
    then have "k = n" using Suc.prems(2) by simp
    then show ?thesis by (simp add: nth_append len)
  qed
qed

section \<open>Index lookups in the tables\<close>

lemma indexOf_from_nth:
  "distinct xs \<Longrightarrow> k < length xs \<Longrightarrow> indexOf_from xs (xs ! k) i = i + int k"
proof (induction xs arbitrary: k i)
  case Nil
  then show ?case by simp
next
  case (Cons x xs)
  show ?case
  proof (cases k)
    case 0
    then show ?thesis by simp
  next
    case (Suc k')
    then have "xs ! k' \<in> set xs" using Cons.prems(2) by simp
    then have "x \<noteq> xs ! k'" using Cons.prems(1) by auto
    then show ?thesis using Suc Cons by simp
  qed
qed

lemma indexOf_GAN_nth: "k < 10 \<Longrightarrow> indexOf GAN (GAN ! k) = int k"
  by (simp add: indexOf_def indexOf_from_nth distinct_GAN length_GAN)

lemma indexOf_ZHI_nth: "k < 12 \<Longrightarrow> indexOf ZHI (ZHI ! k) = int k"
  by (simp add: indexOf_def indexOf_from_nth distinct_ZHI length_ZHI)

lemma js_rem_nat: "js_rem (int a) (int b) = int (a mod b)"
  by (simp add: js_rem_nonneg zmod_int)

section \<open>Properties of the cycle indexer\<close>

text \<open>
  C2 (cycle round-trip). For every position \<open>p\<close> with \<open>0 \<le> p \<le> 59\<close>, the pair that
  \<open>getGanZhiFromIndex\<close> returns for \<open>p\<close> is mapped back to \<open>p\<close> by \<open>getGanZhiIndex\<close>.
\<close>

theorem cycle_round_trip:
  assumes "0 \<le> p" and "p \<le> 59"
  shows "int (getGanZhiIndex (GanZhi.stem (getGanZhiFromIndex p))
                (GanZhi.branch (getGanZhiFromIndex p))) = p"
proof -
  have small: "p mod 60 = p" using assms by simp
  have "nat p < 60" using assms by simp
  then have "getGanZhiIndex (GAN ! (nat p mod 10)) (ZHI ! (nat p mod 12)) = nat p"
    by (rule getGanZhiIndex_pair)
  then show ?thesis using assms(1) by (simp add: getGanZhiFromIndex_mod small)
qed

theorem cycle_round_trip_witness:
  "(0::int) \<le> 37 \<and> (37::int) \<le> 59 \<and>
   GanZhi.stem (getGanZhiFromIndex 37) = gan_xin \<and>
   GanZhi.branch (getGanZhiFromIndex 37) = zhi_chou \<and>
   int (getGanZhiIndex (GanZhi.stem (getGanZhiFromIndex 37))
          (GanZhi.branch (getGanZhiFromIndex 37))) = 37"
proof -
  have "GanZhi.stem (getGanZhiFromIndex 37) = gan_xin"
    by (simp add: getGanZhiFromIndex_mod GAN_def)
  moreover have "GanZhi.branch (getGanZhiFromIndex 37) = zhi_chou"
    by (simp add: getGanZhiFromIndex_mod ZHI_def)
  ultimately show ?thesis using cycle_round_trip [of 37] by simp
qed

text \<open>
  C7 (cycle closure). For every integer \<open>p\<close>, negative ones included,
  \<open>getGanZhiFromIndex (p + 60)\<close> is the pair \<open>getGanZhiFromIndex p\<close>: the normalisation
  \<open>((p % 60) + 60) % 60\<close> lands in 0..59 and does not change when 60 is added.
\<close>

theorem cycle_closure:
  "getGanZhiFromIndex (p + 60) = getGanZhiFromIndex p \<and>
   normalizedIndex (p + 60) = normalizedIndex p \<and>
   0 \<le> normalizedIndex p \<and> normalizedIndex p \<le> 59"
  by (simp add: getGanZhiFromIndex_def normalizedIndex_mod)

text \<open>
  C9 (indexer fallback). When no position of the cycle carries the pair
  \<open>(s, b)\<close>, \<open>getGanZhiIndex\<close> returns position 0 (the function is total: nothing is
  raised). This is the case for two valid symbols whose ordinals \<open>a\<close> and \<open>c\<close> differ in
  parity, and for any symbol outside the two tables.
\<close>

theorem indexer_fallback:
  "((\<forall>i<60. \<not> (GAN ! (i mod 10) = s \<and> ZHI ! (i mod 12) = b)) \<longrightarrow> getGanZhiIndex s b = 0) \<and>
   (a < 10 \<and> c < 12 \<and> a mod 2 \<noteq> c mod 2 \<longrightarrow> getGanZhiIndex (GAN ! a) (ZHI ! c) = 0) \<and>
   (s' \<notin> set GAN \<or> b' \<notin> set ZHI \<longrightarrow> getGanZhiIndex s' b' = 0)"
proof (intro conjI impI)
  assume "\<forall>i<60. \<not> (GAN ! (i mod 10) = s \<and> ZHI ! (i mod 12) = b)"
  then show "getGanZhiIndex s b = 0" by (rule getGanZhiIndex_no_match)
next
  assume "a < 10 \<and> c < 12 \<and> a mod 2 \<noteq> c mod 2"
  then have "\<forall>i<60. \<not> (GAN ! (i mod 10) = GAN ! a \<and> ZHI ! (i mod 12) = ZHI ! c)"
    by (simp add: parity_no_match)
  then show "getGanZhiIndex (GAN ! a) (ZHI ! c) = 0" by (rule getGanZhiIndex_no_match)
next
  assume out: "s' \<notin> set GAN \<or> b' \<notin> set ZHI"
  have "\<not> (GAN ! (i mod 10) = s' \<and> ZHI ! (i mod 12) = b')" for i
  proof
    assume eq: "GAN ! (i mod 10) = s' \<and> ZHI ! (i mod 12) = b'"
    have "GAN ! (i mod 10) \<in> set GAN" by (rule nth_mem) (simp add: length_GAN)
    moreover have "ZHI ! (i mod 12) \<in> set ZHI" by (rule nth_mem) (simp add: length_ZHI)
    ultimately show False using eq out by auto
  qed
  then show "getGanZhiIndex s' b' = 0" by (simp add: getGanZhiIndex_no_match)
qed

theorem indexer_fallback_witness:
  "getGanZhiIndex gan_jia zhi_chou = 0 \<and>
   (0::nat) < 10 \<and> (1::nat) < 12 \<and> (0::nat) mod 2 \<noteq> 1 mod 2 \<and>
   getGanZhiIndex (GAN ! 0) (ZHI ! 1) = 0 \<and>
   [0x41] \<notin> set GAN \<and> getGanZhiIndex [0x41] zhi_zi = 0"
proof -
  have jia: "GAN ! 0 = gan_jia" by (simp add: GAN_def)
  have chou: "ZHI ! 1 = zhi_chou" by (simp add: ZHI_def)
  have no: "\<forall>i<60. \<not> (GAN ! (i mod 10) = gan_jia \<and> ZHI ! (i mod 12) = zhi_chou)"
    using parity_no_match [of 0 1] unfolding jia chou by simp
  have out: "[0x41] \<notin> set GAN" by (simp add: GAN_def)
  show ?thesis
    using indexer_fallback [of gan_jia zhi_chou 0 1 "[0x41]" zhi_zi] no out
    by (simp add: jia chou)
qed

section \<open>Properties of the Ten-God resolver\<close>

text \<open>
  C8 (Ten-God symmetry-breaking). For every Stem \<open>s\<close> of the ten, \<open>getTenGod s s\<close> is the
  Companion label (bigyeon), never the Day-Master label (ilwon); it is also the entry of
  the table on its diagonal.
\<close>

theorem ten_god_same_stem:
  assumes "s \<in> set GAN"
  shows "getTenGod s s = bigyeon \<and> getTenGod s s \<noteq> ilwon \<and>
         TEN_GODS_MAP ! nat (indexOf GAN s) ! nat (indexOf GAN s) = bigyeon"
proof -
  have "TEN_GODS_MAP ! nat (indexOf GAN s) ! nat (indexOf GAN s) = bigyeon"
    using assms by (auto simp add: GAN_def indexOf_def TEN_GODS_MAP_def)
  then show ?thesis by (simp add: getTenGod_def)
qed

theorem ten_god_same_stem_witness:
  "gan_bing \<in> set GAN \<and> getTenGod gan_bing gan_bing = bigyeon \<and>
   getTenGod gan_bing gan_bing \<noteq> ilwon \<and>
   TEN_GODS_MAP ! nat (indexOf GAN gan_bing) ! nat (indexOf GAN gan_bing) = bigyeon"
proof -
  have "gan_bing \<in> set GAN" by (simp add: GAN_def)
  then show ?thesis using ten_god_same_stem [of gan_bing] by simp
qed


section \<open>Properties of the Year Cycle\<close>

lemma saeun_entry_fields:
  "saeun_entry y a =
     \<lparr>SaeunEntry.year = y + int a - 1,
      age = int a,
      stem = GAN ! (nat ((y + int a - 1 - 1984) mod 60) mod 10),
      branch = ZHI ! (nat ((y + int a - 1 - 1984) mod 60) mod 12),
      stemKorean = getKoreanChar (GAN ! (nat ((y + int a - 1 - 1984) mod 60) mod 10)),
      branchKorean = getKoreanChar (ZHI ! (nat ((y + int a - 1 - 1984) mod 60) mod 12))\<rparr>"
proof -
  have "0 \<le> (y + int a - 1 - 1984) mod 60" by simp
  then show ?thesis
    by (simp add: saeun_entry_def js_norm_mod js_rem_nonneg nat_mod_distrib Let_def)
qed

text \<open>
  C5 (year-cycle correctness and anchor). \<open>calculateSaeun\<close> returns 110 entries, the one
  for age \<open>a\<close> (1..110) at index \<open>a - 1\<close>, with calendar year \<open>birthYear + a - 1\<close> and the
  pair at cycle position \<open>((year - 1984) mod 60 + 60) mod 60\<close>. An entry for the calendar
  year 1984 has Stem index 0 (jia) and Branch index 0 (zi).
\<close>

theorem saeun_year_cycle:
  "length (calculateSaeun birthYear) = 110 \<and>
   (\<forall>a\<in>{1..110}.
      SaeunEntry.age (calculateSaeun birthYear ! (a - 1)) = int a \<and>
      SaeunEntry.year (calculateSaeun birthYear ! (a - 1)) = birthYear + int a - 1 \<and>
      SaeunEntry.stem (calculateSaeun birthYear ! (a - 1)) =
        GanZhi.stem (getGanZhiFromIndex (((birthYear + int a - 1 - 1984) mod 60 + 60) mod 60)) \<and>
      SaeunEntry.branch (calculateSaeun birthYear ! (a - 1)) =
        GanZhi.branch (getGanZhiFromIndex (((birthYear + int a - 1 - 1984) mod 60 + 60) mod 60))) \<and>
   (\<forall>e\<in>set (calculateSaeun birthYear). SaeunEntry.year e = 1984 \<longrightarrow>
      SaeunEntry.stem e = gan_jia \<and> SaeunEntry.branch e = zhi_zi \<and>
      indexOf GAN (SaeunEntry.stem e) = 0 \<and> indexOf ZHI (SaeunEntry.branch e) = 0)"
proof (intro conjI ballI impI)
  show "length (calculateSaeun birthYear) = 110"
    by (simp add: calculateSaeun_map)
next
  fix a :: nat
  assume "a \<in> {1..110}"
  then have a: "1 \<le> a" "a - 1 < 110" by auto
  then have "1 + (a - 1) < 111" by simp
  then have "[1..<111] ! (a - 1) = 1 + (a - 1)" by (rule nth_upt)
  then have "[1..<111] ! (a - 1) = a" using a(1) by simp
  then have nth: "calculateSaeun birthYear ! (a - 1) = saeun_entry birthYear a"
    using a(2) by (simp add: calculateSaeun_map)
  show "SaeunEntry.age (calculateSaeun birthYear ! (a - 1)) = int a"
    unfolding nth by (simp add: saeun_entry_fields)
  show "SaeunEntry.year (calculateSaeun birthYear ! (a - 1)) = birthYear + int a - 1"
    unfolding nth by (simp add: saeun_entry_fields)
  show "SaeunEntry.stem (calculateSaeun birthYear ! (a - 1)) =
        GanZhi.stem (getGanZhiFromIndex (((birthYear + int a - 1 - 1984) mod 60 + 60) mod 60))"
    unfolding nth by (simp add: saeun_entry_fields getGanZhiFromIndex_mod)
  show "SaeunEntry.branch (calculateSaeun birthYear ! (a - 1)) =
        GanZhi.branch (getGanZhiFromIndex (((birthYear + int a - 1 - 1984) mod 60 + 60) mod 60))"
    unfolding nth by (simp add: saeun_entry_fields getGanZhiFromIndex_mod)
next
  fix e
  assume "e \<in> set (calculateSaeun birthYear)" and yr: "SaeunEntry.year e = 1984"
  then obtain a where e: "e = saeun_entry birthYear a"
    by (auto simp add: calculateSaeun_map)
  have "birthYear + int a - 1 = 1984" using yr by (simp add: e saeun_entry_fields)
  then have pair: "SaeunEntry.stem e = GAN ! 0 \<and> SaeunEntry.branch e = ZHI ! 0"
    by (simp add: e saeun_entry_fields)
  then show "SaeunEntry.stem e = gan_jia" by (simp add: GAN_def)
  from pair show "SaeunEntry.branch e = zhi_zi" by (simp add: ZHI_def)
  from pair show "indexOf GAN (SaeunEntry.stem e) = 0"
    using indexOf_GAN_nth [of 0] by simp
  from pair show "indexOf ZHI (SaeunEntry.branch e) = 0"
    using indexOf_ZHI_nth [of 0] by simp
qed

theorem saeun_year_cycle_witness:
  "(1::nat) \<in> {1..110} \<and>
   calculateSaeun 1984 ! 0 \<in> set (calculateSaeun 1984) \<and>
   SaeunEntry.age (calculateSaeun 1984 ! 0) = 1 \<and>
   SaeunEntry.year (calculateSaeun 1984 ! 0) = 1984 \<and>
   SaeunEntry.stem (calculateSaeun 1984 ! 0) = gan_jia \<and>
   SaeunEntry.branch (calculateSaeun 1984 ! 0) = zhi_zi \<and>
   indexOf GAN (SaeunEntry.stem (calculateSaeun 1984 ! 0)) = 0 \<and>
   indexOf ZHI (SaeunEntry.branch (calculateSaeun 1984 ! 0)) = 0"
proof -
  have all: "length (calculateSaeun 1984) = 110 \<and>
    (\<forall>a\<in>{1..110}.
      SaeunEntry.age (calculateSaeun 1984 ! (a - 1)) = int a \<and>
      SaeunEntry.year (calculateSaeun 1984 ! (a - 1)) = 1984 + int a - 1 \<and>
      SaeunEntry.stem (calculateSaeun 1984 ! (a - 1)) =
        GanZhi.stem (getGanZhiFromIndex (((1984 + int a - 1 - 1984) mod 60 + 60) mod 60)) \<and>
      SaeunEntry.branch (calculateSaeun 1984 ! (a - 1)) =
        GanZhi.branch (getGanZhiFromIndex (((1984 + int a - 1 - 1984) mod 60 + 60) mod 60))) \<and>
    (\<forall>e\<in>set (calculateSaeun 1984). SaeunEntry.year e = 1984 \<longrightarrow>
      SaeunEntry.stem e = gan_jia \<and> SaeunEntry.branch e = zhi_zi \<and>
      indexOf GAN (SaeunEntry.stem e) = 0 \<and> indexOf ZHI (SaeunEntry.branch e) = 0)"
    by (rule saeun_year_cycle [of 1984])
  have mem: "calculateSaeun 1984 ! 0 \<in> set (calculateSaeun 1984)"
    using all by (simp only: nth_mem)
  have one: "(1::nat) \<in> {1..110}" by simp
  from all one have first:
    "SaeunEntry.age (calculateSaeun 1984 ! (1 - 1)) = int 1 \<and>
     SaeunEntry.year (calculateSaeun 1984 ! (1 - 1)) = 1984 + int 1 - 1"
    by blast
  then have yr: "SaeunEntry.year (calculateSaeun 1984 ! 0) = 1984"
    and ag: "SaeunEntry.age (calculateSaeun 1984 ! 0) = 1" by simp_all
  from all mem yr have
    "SaeunEntry.stem (calculateSaeun 1984 ! 0) = gan_jia \<and>
     SaeunEntry.branch (calculateSaeun 1984 ! 0) = zhi_zi \<and>
     indexOf GAN (SaeunEntry.stem (calculateSaeun 1984 ! 0)) = 0 \<and>
     indexOf ZHI (SaeunEntry.branch (calculateSaeun 1984 ! 0)) = 0"
    by blast
  with one mem yr ag show ?thesis by blast
qed

section \<open>Properties of the Month Cycle\<close>

lemma upt_10: "[0..<10] = [0, 1, 2, 3, 4, 5, 6, 7, 8, 9]"
  by (simp add: upt_conv_Cons)

lemma tiger_table:
  assumes "k < 10"
  shows "[2, 4, 6, 8, 0, 2, 4, 6, 8, 0] ! k = int (spec_fiveTigersStart k)"
proof -
  have "list_all (\<lambda>k. [2, 4, 6, 8, 0, 2, 4, 6, 8, 0] ! k = int (spec_fiveTigersStart k)) [0..<10]"
    unfolding upt_10 by (simp add: spec_fiveTigersStart_def)
  then show ?thesis using assms by (simp add: list_all_iff)
qed

lemma even_fiveTigersStart: "even (spec_fiveTigersStart k)"
  by (simp add: spec_fiveTigersStart_def)

lemma spec_yearStemOrdinal_eq: "spec_yearStemOrdinal y = nat ((y - 1984) mod 60) mod 10"
  by (simp add: spec_yearStemOrdinal_def)

lemma wolun_entry_fields:
  assumes "1 \<le> m"
  shows "wolun_entry y m =
     \<lparr>WolunEntry.year = y,
      month = int m,
      stem = GAN ! ((spec_fiveTigersStart (spec_yearStemOrdinal y) + m - 1) mod 10),
      branch = ZHI ! ((m + 1) mod 12),
      stemKorean =
        getKoreanChar (GAN ! ((spec_fiveTigersStart (spec_yearStemOrdinal y) + m - 1) mod 10)),
      branchKorean = getKoreanChar (ZHI ! ((m + 1) mod 12))\<rparr>"
proof -
  define k where "k = nat ((y - 1984) mod 60) mod 10"
  define ft where "ft = spec_fiveTigersStart k"
  have k: "k < 10" by (simp add: k_def)
  have pos: "0 \<le> (y - 1984) mod 60" by simp
  have yearGan: "GAN ! nat (js_rem (js_rem (js_rem (y - 1984) 60 + 60) 60) 10) = GAN ! k"
    using pos by (simp add: js_norm_mod js_rem_nonneg nat_mod_distrib k_def)
  have start: "[2, 4, 6, 8, 0, 2, 4, 6, 8, 0] ! nat (indexOf GAN (GAN ! k)) = int ft"
    using k by (simp add: indexOf_GAN_nth tiger_table ft_def)
  obtain n where n: "m = Suc n" using assms by (cases m) simp_all
  have e1: "ft + m - 1 = ft + n" by (simp add: n)
  have e2: "int ft + int m - 1 = int (ft + n)" by (simp add: n)
  have stemIdx: "nat (js_rem (int ft + int m - 1) 10) = (ft + m - 1) mod 10"
    unfolding e1 e2 using js_rem_nat [of "ft + n" 10] by simp
  have e3: "int m + 1 = int (m + 1)" by simp
  have branchIdx: "nat (js_rem (int m + 1) 12) = (m + 1) mod 12"
    unfolding e3 using js_rem_nat [of "m + 1" 12] by simp
  show ?thesis
    unfolding wolun_entry_def Let_def yearGan start stemIdx branchIdx
    by (simp add: spec_yearStemOrdinal_eq ft_def k_def)
qed

lemma length_calculateWolun: "length (calculateWolun y) = 720"
proof -
  have "length (concat (map (\<lambda>j. map (wolun_entry (y + int j)) [1..<13]) [0..<60])) = 60 * 12"
    by (rule length_concat_blocks) simp
  then show ?thesis by (simp add: calculateWolun_concat)
qed

lemma calculateWolun_nth:
  assumes "k < 60" and "1 \<le> m" and "m \<le> 12"
  shows "calculateWolun y ! (k * 12 + (m - 1)) = wolun_entry (y + int k) m"
proof -
  have lt: "m - 1 < 12" using assms(3) by simp
  have "1 + (m - 1) < 13" using assms(2,3) by simp
  then have "[1..<13] ! (m - 1) = 1 + (m - 1)" by (rule nth_upt)
  then have idx: "[1..<13] ! (m - 1) = m" using assms(2) by simp
  have blk: "concat (map (\<lambda>j. map (wolun_entry (y + int j)) [1..<13]) [0..<60]) ! (k * 12 + (m - 1)) =
        map (wolun_entry (y + int k)) [1..<13] ! (m - 1)"
    using _ assms(1) lt by (rule nth_concat_blocks) simp
  have "m - 1 < length [1..<13]" using lt by simp
  then have nm: "map (wolun_entry (y + int k)) [1..<13] ! (m - 1) =
        wolun_entry (y + int k) ([1..<13] ! (m - 1))"
    by (rule nth_map)
  show ?thesis by (simp only: calculateWolun_concat blk nm idx)
qed

lemma calculateWolun_elem:
  assumes "e \<in> set (calculateWolun y)"
  obtains k m where "k < 60" and "1 \<le> m" and "m \<le> 12" and "e = wolun_entry (y + int k) m"
  using assms by (auto simp add: calculateWolun_concat)

text \<open>
  C3 (month-cycle correctness). \<open>calculateWolun\<close> returns 720 entries; the one at index
  \<open>k * 12 + (m - 1)\<close>, for \<open>k\<close> below 60 and month \<open>m\<close> in 1..12, has year
  \<open>birthYear + k\<close> and month \<open>m\<close> (so the years \<open>birthYear .. birthYear + 59\<close> come in
  order, twelve months each, in month order), Stem index
  \<open>(fiveTigersStart + m - 1) mod 10\<close> with the start taken from the year's Stem ordinal by
  the Five-Tigers correspondence, and Branch index \<open>(m + 1) mod 12\<close>.
\<close>

theorem wolun_month_cycle:
  "length (calculateWolun birthYear) = 720 \<and>
   (\<forall>k<60. \<forall>m\<in>{1..12}.
      WolunEntry.year (calculateWolun birthYear ! (k * 12 + (m - 1))) = birthYear + int k \<and>
      WolunEntry.month (calculateWolun birthYear ! (k * 12 + (m - 1))) = int m \<and>
      WolunEntry.stem (calculateWolun birthYear ! (k * 12 + (m - 1))) =
        GAN ! ((spec_fiveTigersStart (spec_yearStemOrdinal (birthYear + int k)) + m - 1) mod 10) \<and>
      indexOf GAN (WolunEntry.stem (calculateWolun birthYear ! (k * 12 + (m - 1)))) =
        int ((spec_fiveTigersStart (spec_yearStemOrdinal (birthYear + int k)) + m - 1) mod 10) \<and>
      WolunEntry.branch (calculateWolun birthYear ! (k * 12 + (m - 1))) = ZHI ! ((m + 1) mod 12) \<and>
      indexOf ZHI (WolunEntry.branch (calculateWolun birthYear ! (k * 12 + (m - 1)))) =
        int ((m + 1) mod 12))"
proof (intro conjI allI impI ballI)
  show "length (calculateWolun birthYear) = 720" by (rule length_calculateWolun)
next
  fix k m :: nat
  assume k: "k < 60" and "m \<in> {1..12}"
  then have m: "1 \<le> m" "m \<le> 12" by simp_all
  note nth = calculateWolun_nth [OF k m, of birthYear]
  note fields = wolun_entry_fields [OF m(1), of "birthYear + int k"]
  show "WolunEntry.year (calculateWolun birthYear ! (k * 12 + (m - 1))) = birthYear + int k"
    unfolding nth by (simp add: fields)
  show "WolunEntry.month (calculateWolun birthYear ! (k * 12 + (m - 1))) = int m"
    unfolding nth by (simp add: fields)
  show "WolunEntry.stem (calculateWolun birthYear ! (k * 12 + (m - 1))) =
        GAN ! ((spec_fiveTigersStart (spec_yearStemOrdinal (birthYear + int k)) + m - 1) mod 10)"
    unfolding nth by (simp add: fields)
  show "indexOf GAN (WolunEntry.stem (calculateWolun birthYear ! (k * 12 + (m - 1)))) =
        int ((spec_fiveTigersStart (spec_yearStemOrdinal (birthYear + int k)) + m - 1) mod 10)"
    unfolding nth by (simp add: fields indexOf_GAN_nth)
  show "WolunEntry.branch (calculateWolun birthYear ! (k * 12 + (m - 1))) = ZHI ! ((m + 1) mod 12)"
    unfolding nth by (simp add: fields)
  show "indexOf ZHI (WolunEntry.branch (calculateWolun birthYear ! (k * 12 + (m - 1)))) =
        int ((m + 1) mod 12)"
    unfolding nth by (simp add: fields indexOf_ZHI_nth)
qed

theorem wolun_month_cycle_witness:
  "(0::nat) < 60 \<and> (1::nat) \<in> {1..12} \<and>
   length (calculateWolun 1984) = 720 \<and>
   WolunEntry.year (calculateWolun 1984 ! 0) = 1984 \<and>
   WolunEntry.month (calculateWolun 1984 ! 0) = 1 \<and>
   WolunEntry.stem (calculateWolun 1984 ! 0) = gan_bing \<and>
   indexOf GAN (WolunEntry.stem (calculateWolun 1984 ! 0)) = 2 \<and>
   WolunEntry.branch (calculateWolun 1984 ! 0) = zhi_yin \<and>
   indexOf ZHI (WolunEntry.branch (calculateWolun 1984 ! 0)) = 2"
proof -
  have ord: "spec_fiveTigersStart (spec_yearStemOrdinal (1984 + int 0)) = 2"
    by (simp add: spec_fiveTigersStart_def spec_yearStemOrdinal_def)
  have bing: "GAN ! 2 = gan_bing" by (simp add: GAN_def)
  have yin: "ZHI ! 2 = zhi_yin" by (simp add: ZHI_def)
  have e0: "(0::nat) * 12 + (1 - 1) = 0" by simp
  have i1: "(spec_fiveTigersStart (spec_yearStemOrdinal (1984 + int 0)) + 1 - 1) mod 10 = 2"
    unfolding ord by simp
  have i2: "((1::nat) + 1) mod 12 = 2" by simp
  have ib: "indexOf GAN gan_bing = 2" by (simp add: indexOf_def GAN_def)
  have iy: "indexOf ZHI zhi_yin = 2" by (simp add: indexOf_def ZHI_def)
  have k0: "(0::nat) < 60" and m1: "(1::nat) \<in> {1..12}" by simp_all
  have "WolunEntry.year (calculateWolun 1984 ! (0 * 12 + (1 - 1))) = 1984 + int 0 \<and>
     WolunEntry.month (calculateWolun 1984 ! (0 * 12 + (1 - 1))) = int 1 \<and>
     WolunEntry.stem (calculateWolun 1984 ! (0 * 12 + (1 - 1))) =
       GAN ! ((spec_fiveTigersStart (spec_yearStemOrdinal (1984 + int 0)) + 1 - 1) mod 10) \<and>
     indexOf GAN (WolunEntry.stem (calculateWolun 1984 ! (0 * 12 + (1 - 1)))) =
       int ((spec_fiveTigersStart (spec_yearStemOrdinal (1984 + int 0)) + 1 - 1) mod 10) \<and>
     WolunEntry.branch (calculateWolun 1984 ! (0 * 12 + (1 - 1))) = ZHI ! ((1 + 1) mod 12) \<and>
     indexOf ZHI (WolunEntry.branch (calculateWolun 1984 ! (0 * 12 + (1 - 1)))) =
       int ((1 + 1) mod 12)"
    using wolun_month_cycle [of 1984, THEN conjunct2, rule_format, OF k0 m1] .
  then have
    "WolunEntry.year (calculateWolun 1984 ! 0) = 1984 \<and>
     WolunEntry.month (calculateWolun 1984 ! 0) = 1 \<and>
     WolunEntry.stem (calculateWolun 1984 ! 0) = gan_bing \<and>
     indexOf GAN (WolunEntry.stem (calculateWolun 1984 ! 0)) = 2 \<and>
     WolunEntry.branch (calculateWolun 1984 ! 0) = zhi_yin \<and>
     indexOf ZHI (WolunEntry.branch (calculateWolun 1984 ! 0)) = 2"
    unfolding e0 i1 i2 bing yin by (simp add: ib iy)
  moreover have "length (calculateWolun 1984) = 720"
    using wolun_month_cycle [of 1984] by (rule conjunct1)
  ultimately show ?thesis using k0 m1 by blast
qed

text \<open>
  C10 (the month pairs lie in the cycle). Every entry of \<open>calculateWolun\<close> carries a Stem
  and a Branch of the tables whose indices have the same parity; the pair is one of the 60
  combinations of the cycle, and \<open>getGanZhiIndex\<close> applied to it returns a position that
  really carries the pair, not the fallback.
\<close>

theorem wolun_pairs_in_cycle:
  "\<forall>e\<in>set (calculateWolun birthYear).
     0 \<le> indexOf GAN (WolunEntry.stem e) \<and> 0 \<le> indexOf ZHI (WolunEntry.branch e) \<and>
     indexOf GAN (WolunEntry.stem e) mod 2 = indexOf ZHI (WolunEntry.branch e) mod 2 \<and>
     (\<exists>i<60. GAN ! (i mod 10) = WolunEntry.stem e \<and> ZHI ! (i mod 12) = WolunEntry.branch e \<and>
            getGanZhiIndex (WolunEntry.stem e) (WolunEntry.branch e) = i)"
proof
  fix e
  assume "e \<in> set (calculateWolun birthYear)"
  then obtain k m where m: "1 \<le> m" and e: "e = wolun_entry (birthYear + int k) m"
    by (rule calculateWolun_elem)
  define ft where "ft = spec_fiveTigersStart (spec_yearStemOrdinal (birthYear + int k))"
  define si where "si = (ft + m - 1) mod 10"
  define bi where "bi = (m + 1) mod 12"
  have st: "WolunEntry.stem e = GAN ! si" and br: "WolunEntry.branch e = ZHI ! bi"
    by (simp_all add: e wolun_entry_fields [OF m] si_def bi_def ft_def)
  have si: "si < 10" and bi: "bi < 12" by (simp_all add: si_def bi_def)
  have idxS: "indexOf GAN (WolunEntry.stem e) = int si" using si by (simp add: st indexOf_GAN_nth)
  have idxB: "indexOf ZHI (WolunEntry.branch e) = int bi" using bi by (simp add: br indexOf_ZHI_nth)
  obtain n where n: "m = Suc n" using m by (cases m) simp_all
  have "even ft" by (simp add: ft_def even_fiveTigersStart)
  then obtain q where q: "ft = 2 * q" by (rule dvdE)
  have "ft + m - 1 = 2 * q + n" by (simp add: n q)
  then have "si mod 2 = (2 * q + n) mod 10 mod 2" by (simp only: si_def)
  also have "\<dots> = (2 * q + n) mod 2" by (rule mod_mod_cancel) simp
  also have "\<dots> = n mod 2" by (rule mod_mult_self4)
  finally have "si mod 2 = n mod 2" .
  moreover have "bi mod 2 = n mod 2"
  proof -
    have "m + 1 = 2 * 1 + n" by (simp add: n)
    then have "bi mod 2 = (2 * 1 + n) mod 12 mod 2" by (simp only: bi_def)
    also have "\<dots> = (2 * 1 + n) mod 2" by (rule mod_mod_cancel) simp
    also have "\<dots> = n mod 2" by (rule mod_mult_self4)
    finally show ?thesis .
  qed
  ultimately have par: "si mod 2 = bi mod 2" by simp
  have "int si mod 2 = int (si mod 2)" and "int bi mod 2 = int (bi mod 2)"
    by (simp_all add: zmod_int)
  with par have parI: "int si mod 2 = int bi mod 2" by simp
  obtain i where i: "i < 60" "i mod 10 = si" "i mod 12 = bi"
    using crt_exists [OF si bi par] by blast
  have "getGanZhiIndex (GAN ! (i mod 10)) (ZHI ! (i mod 12)) = i"
    using i(1) by (rule getGanZhiIndex_pair)
  then have "\<exists>i<60. GAN ! (i mod 10) = WolunEntry.stem e \<and> ZHI ! (i mod 12) = WolunEntry.branch e \<and>
            getGanZhiIndex (WolunEntry.stem e) (WolunEntry.branch e) = i"
    using i by (auto simp add: st br)
  then show "0 \<le> indexOf GAN (WolunEntry.stem e) \<and> 0 \<le> indexOf ZHI (WolunEntry.branch e) \<and>
     indexOf GAN (WolunEntry.stem e) mod 2 = indexOf ZHI (WolunEntry.branch e) mod 2 \<and>
     (\<exists>i<60. GAN ! (i mod 10) = WolunEntry.stem e \<and> ZHI ! (i mod 12) = WolunEntry.branch e \<and>
            getGanZhiIndex (WolunEntry.stem e) (WolunEntry.branch e) = i)"
    using parI by (simp add: idxS idxB)
qed

theorem wolun_pairs_in_cycle_witness:
  "calculateWolun 1984 ! 0 \<in> set (calculateWolun 1984) \<and>
   WolunEntry.stem (calculateWolun 1984 ! 0) = gan_bing \<and>
   WolunEntry.branch (calculateWolun 1984 ! 0) = zhi_yin \<and>
   0 \<le> indexOf GAN gan_bing \<and> 0 \<le> indexOf ZHI zhi_yin \<and>
   indexOf GAN gan_bing mod 2 = indexOf ZHI zhi_yin mod 2 \<and>
   (\<exists>i<60. GAN ! (i mod 10) = gan_bing \<and> ZHI ! (i mod 12) = zhi_yin \<and>
          getGanZhiIndex gan_bing zhi_yin = i)"
proof -
  have nth0: "calculateWolun 1984 ! 0 = wolun_entry 1984 1"
    using calculateWolun_nth [of 0 1 1984] by simp
  have ft: "spec_fiveTigersStart (spec_yearStemOrdinal 1984) = 2"
    by (simp add: spec_fiveTigersStart_def spec_yearStemOrdinal_def)
  have st: "WolunEntry.stem (calculateWolun 1984 ! 0) = gan_bing"
    unfolding nth0 by (simp add: wolun_entry_fields ft GAN_def)
  have br: "WolunEntry.branch (calculateWolun 1984 ! 0) = zhi_yin"
    unfolding nth0 by (simp add: wolun_entry_fields ZHI_def)
  have mem: "calculateWolun 1984 ! 0 \<in> set (calculateWolun 1984)"
    by (rule nth_mem) (simp add: length_calculateWolun)
  have "0 \<le> indexOf GAN (WolunEntry.stem (calculateWolun 1984 ! 0)) \<and>
        0 \<le> indexOf ZHI (WolunEntry.branch (calculateWolun 1984 ! 0)) \<and>
        indexOf GAN (WolunEntry.stem (calculateWolun 1984 ! 0)) mod 2 =
          indexOf ZHI (WolunEntry.branch (calculateWolun 1984 ! 0)) mod 2 \<and>
        (\<exists>i<60. GAN ! (i mod 10) = WolunEntry.stem (calculateWolun 1984 ! 0) \<and>
               ZHI ! (i mod 12) = WolunEntry.branch (calculateWolun 1984 ! 0) \<and>
               getGanZhiIndex (WolunEntry.stem (calculateWolun 1984 ! 0))
                 (WolunEntry.branch (calculateWolun 1984 ! 0)) = i)"
    using wolun_pairs_in_cycle [of 1984] mem by (rule bspec)
  then have main:
    "0 \<le> indexOf GAN gan_bing \<and> 0 \<le> indexOf ZHI zhi_yin \<and>
     indexOf GAN gan_bing mod 2 = indexOf ZHI zhi_yin mod 2 \<and>
     (\<exists>i<60. GAN ! (i mod 10) = gan_bing \<and> ZHI ! (i mod 12) = zhi_yin \<and>
            getGanZhiIndex gan_bing zhi_yin = i)"
    unfolding st br .
  show ?thesis by (rule conjI [OF mem conjI [OF st conjI [OF br main]]])
qed

section \<open>The Pillar builder and the Day-Master label\<close>

lemma GAN_ZHI_disjoint: "set GAN \<inter> set ZHI = {}"
  by (simp add: GAN_def ZHI_def)

lemma TEN_GODS_MAP_diagonal_only:
  "list_all (\<lambda>i. list_all (\<lambda>j. (TEN_GODS_MAP ! i ! j = bigyeon) = (i = j)) [0..<10]) [0..<10]"
  unfolding upt_10 by (simp add: TEN_GODS_MAP_def)

text \<open>
  Between two Stems of the table, \<open>createPillar\<close> never produces the Companion label: the
  table holds it on the diagonal only, and an equal Stem is caught by the comparison with
  the Day Stem before the table is consulted.
\<close>

lemma createPillar_never_companion:
  assumes "dayStem \<in> set GAN" and "stem' \<in> set GAN"
  shows "stemTenGod (createPillar dayStem stem' branch') \<noteq> bigyeon"
proof (cases "stem' = dayStem")
  case True
  then show ?thesis by (simp add: createPillar_def)
next
  case False
  obtain i where i: "i < 10" "dayStem = GAN ! i"
    using assms(1) by (auto simp add: in_set_conv_nth length_GAN)
  obtain j where j: "j < 10" "stem' = GAN ! j"
    using assms(2) by (auto simp add: in_set_conv_nth length_GAN)
  have ne: "i \<noteq> j" using False i j by auto
  have notin: "\<not> js_includes ZHI stem'"
    using assms(2) GAN_ZHI_disjoint by (auto simp add: js_includes_def)
  have "(TEN_GODS_MAP ! i ! j = bigyeon) = (i = j)"
    using TEN_GODS_MAP_diagonal_only i(1) j(1) by (simp add: list_all_iff)
  then have "TEN_GODS_MAP ! i ! j \<noteq> bigyeon" using ne by simp
  then have "getTenGod dayStem stem' \<noteq> bigyeon"
    using False i j notin by (simp add: getTenGod_def indexOf_GAN_nth)
  then show ?thesis using False by (simp add: createPillar_def)
qed

text \<open>
  C1 (the Day-Master label is for the Day pillar's Stem slot only). The claim asks that a
  pillar other than the Day pillar whose Stem equals the Day Stem carry the Companion
  label (bigyeon). \<open>createPillar\<close> compares Stems by value and does not know the slot: for
  the chart with Year pillar jia-zi, Month pillar bing-yin, Day pillar jia-wu and Hour
  pillar ding-mao, the Year pillar receives the Day-Master label (ilwon), although
  \<open>getTenGod\<close> itself gives the Companion label for the same two Stems.
\<close>

theorem year_pillar_same_stem_gets_self_label:
  "stemTenGod (yearPillar (analyzeSaju_pillars gan_jia zhi_zi gan_bing zhi_yin
                             gan_jia zhi_wu gan_ding zhi_mao)) = ilwon \<and>
   stemTenGod (yearPillar (analyzeSaju_pillars gan_jia zhi_zi gan_bing zhi_yin
                             gan_jia zhi_wu gan_ding zhi_mao)) \<noteq> bigyeon \<and>
   stemTenGod (dayPillar (analyzeSaju_pillars gan_jia zhi_zi gan_bing zhi_yin
                            gan_jia zhi_wu gan_ding zhi_mao)) = ilwon \<and>
   getTenGod gan_jia gan_jia = bigyeon"
  by (simp add: analyzeSaju_pillars_def createPillar_def getTenGod_def)

section \<open>Properties of the Decade Cycle\<close>

lemma length_daysInMonth: "length daysInMonth = 12"
  by (simp add: daysInMonth_def)

lemma daeun_startAge_valid:
  assumes "1 \<le> birthMonth" and "birthMonth \<le> 12"
  shows "daeun_startAge birthMonth birthDay =
     Some (of_int (round (of_int \<bar>round (of_int (daysInMonth ! nat (birthMonth - 1)) / 2
                                          - of_int birthDay + 15 :: rat)\<bar> / 3 * 10 :: rat)) / 10)"
  using assms by (simp add: daeun_startAge_def js_index_def length_daysInMonth Let_def)

lemma js_rem_2_even: "js_rem a 2 = 0 \<longleftrightarrow> even a"
proof -
  have "js_rem a 2 = 0 \<longleftrightarrow> a = 0 \<or> \<bar>a\<bar> mod 2 = 0"
    by (simp add: js_rem_def sgn_eq_0_iff)
  also have "\<dots> \<longleftrightarrow> a = 0 \<or> even \<bar>a\<bar>"
    by (simp only: even_iff_mod_2_eq_zero)
  also have "\<dots> \<longleftrightarrow> even a" by auto
  finally show ?thesis .
qed

lemma isForward_rule:
  "isForward yearStem g \<longleftrightarrow>
     (even (indexOf GAN yearStem) \<and> g = male) \<or> (odd (indexOf GAN yearStem) \<and> g = female)"
  by (cases g) (simp_all add: isForward_def Let_def js_rem_2_even)

lemma getGanZhiFromIndex_inj:
  assumes "getGanZhiFromIndex p = getGanZhiFromIndex q"
  shows "p mod 60 = q mod 60"
proof -
  let ?a = "nat (p mod 60)" and ?b = "nat (q mod 60)"
  have a: "?a < 60" and b: "?b < 60" by simp_all
  from assms have "GAN ! (?a mod 10) = GAN ! (?b mod 10)" and "ZHI ! (?a mod 12) = ZHI ! (?b mod 12)"
    by (simp_all add: getGanZhiFromIndex_mod)
  then have "?a mod 10 = ?b mod 10" and "?a mod 12 = ?b mod 12"
    by (simp_all add: GAN_nth_eq ZHI_nth_eq)
  with a b have "?a = ?b" by (rule crt_unique)
  then show ?thesis by simp
qed

lemma forward_backward_differ: "getGanZhiFromIndex (m + 1) \<noteq> getGanZhiFromIndex (m - 1)"
proof
  assume "getGanZhiFromIndex (m + 1) = getGanZhiFromIndex (m - 1)"
  then have "(m + 1) mod 60 = (m - 1) mod 60" by (rule getGanZhiFromIndex_inj)
  then have "60 dvd (m + 1) - (m - 1)" by (simp only: mod_eq_dvd_iff)
  then show False by simp
qed

text \<open>
  C4 (decade-cycle entries). For a birth month in 1..12, \<open>calculateDaeun\<close> returns the
  starting age \<open>sa\<close> (the rounded tenth computed from the days to the solar term) and 13
  entries; entry \<open>i\<close> carries the pair of \<open>getGanZhiFromIndex\<close> at
  \<open>monthPosition + i + 1\<close> when the walk is forward and at \<open>monthPosition - i - 1\<close>
  when it is backward, starting age \<open>sa\<close> for \<open>i = 0\<close> and \<open>floor sa + i * 10\<close>
  otherwise, ending age \<open>floor sa + (i + 1) * 10 - 1\<close>, and starting year
  \<open>birthYear + floor (starting age)\<close>.
\<close>

theorem daeun_entries:
  assumes "1 \<le> birthMonth" and "birthMonth \<le> 12"
  shows
    "let r = calculateDaeun birthYear birthMonth birthDay g monthStem monthBranch yearStem;
         monthPosition = int (getGanZhiIndex monthStem monthBranch);
         pos = (\<lambda>i. if isForward yearStem g then monthPosition + int i + 1
                     else monthPosition - int i - 1);
         sa = of_int (round (of_int \<bar>round (of_int (daysInMonth ! nat (birthMonth - 1)) / 2
                                               - of_int birthDay + 15 :: rat)\<bar> / 3 * 10 :: rat)) / 10
     in snd r = Some sa \<and>
          length (fst r) = 13 \<and>
          (\<forall>i<13.
             DaeunEntry.stem (fst r ! i) = GanZhi.stem (getGanZhiFromIndex (pos i)) \<and>
             DaeunEntry.branch (fst r ! i) = GanZhi.branch (getGanZhiFromIndex (pos i)) \<and>
             startAge (fst r ! i) = Some (if i = 0 then sa else of_int (\<lfloor>sa\<rfloor> + int i * 10)) \<and>
             endAge (fst r ! i) = Some (\<lfloor>sa\<rfloor> + (int i + 1) * 10 - 1) \<and>
             startYear (fst r ! i) =
               Some (birthYear + \<lfloor>if i = 0 then sa else of_int (\<lfloor>sa\<rfloor> + int i * 10)\<rfloor>))"
proof -
  define sa :: rat where
    "sa = of_int (round (of_int \<bar>round (of_int (daysInMonth ! nat (birthMonth - 1)) / 2
                                        - of_int birthDay + 15 :: rat)\<bar> / 3 * 10 :: rat)) / 10"
  have sa: "daeun_startAge birthMonth birthDay = Some sa"
    unfolding sa_def using assms by (rule daeun_startAge_valid)
  define m where "m = int (getGanZhiIndex monthStem monthBranch)"
  define fwd where "fwd = isForward yearStem g"
  let ?r = "calculateDaeun birthYear birthMonth birthDay g monthStem monthBranch yearStem"
  have r: "?r = (map (daeun_entry birthYear fwd m (Some sa)) [0..<13], Some sa)"
    by (simp add: calculateDaeun_map sa m_def fwd_def)
  have entry: "fst ?r ! i = daeun_entry birthYear fwd m (Some sa) i" if "i < 13" for i
    using that by (simp add: r)
  have fields:
    "DaeunEntry.stem (fst ?r ! i) =
       GanZhi.stem (getGanZhiFromIndex (if fwd then m + int i + 1 else m - int i - 1)) \<and>
     DaeunEntry.branch (fst ?r ! i) =
       GanZhi.branch (getGanZhiFromIndex (if fwd then m + int i + 1 else m - int i - 1)) \<and>
     startAge (fst ?r ! i) = Some (if i = 0 then sa else of_int (\<lfloor>sa\<rfloor> + int i * 10)) \<and>
     endAge (fst ?r ! i) = Some (\<lfloor>sa\<rfloor> + (int i + 1) * 10 - 1) \<and>
     startYear (fst ?r ! i) =
       Some (birthYear + \<lfloor>if i = 0 then sa else of_int (\<lfloor>sa\<rfloor> + int i * 10)\<rfloor>)"
    if "i < 13" for i
    unfolding entry [OF that] by (simp add: daeun_entry_def Let_def)
  have "snd ?r = Some sa" and "length (fst ?r) = 13" by (simp_all add: r)
  with fields show ?thesis
    unfolding Let_def m_def [symmetric] fwd_def [symmetric] sa_def [symmetric] by blast
qed

theorem daeun_entries_witness:
  "(1::int) \<le> 5 \<and> (5::int) \<le> 12 \<and>
   isForward gan_geng male \<and> getGanZhiIndex gan_xin zhi_si = 17 \<and>
   snd (calculateDaeun 1990 5 15 male gan_xin zhi_si gan_geng) = Some (53 / 10) \<and>
   length (fst (calculateDaeun 1990 5 15 male gan_xin zhi_si gan_geng)) = 13 \<and>
   DaeunEntry.stem (fst (calculateDaeun 1990 5 15 male gan_xin zhi_si gan_geng) ! 0) = gan_ren \<and>
   DaeunEntry.branch (fst (calculateDaeun 1990 5 15 male gan_xin zhi_si gan_geng) ! 0) = zhi_wu \<and>
   startAge (fst (calculateDaeun 1990 5 15 male gan_xin zhi_si gan_geng) ! 0) = Some (53 / 10) \<and>
   endAge (fst (calculateDaeun 1990 5 15 male gan_xin zhi_si gan_geng) ! 0) = Some 14 \<and>
   startYear (fst (calculateDaeun 1990 5 15 male gan_xin zhi_si gan_geng) ! 0) = Some 1995 \<and>
   startAge (fst (calculateDaeun 1990 5 15 male gan_xin zhi_si gan_geng) ! 1) = Some 15 \<and>
   endAge (fst (calculateDaeun 1990 5 15 male gan_xin zhi_si gan_geng) ! 1) = Some 24 \<and>
   startYear (fst (calculateDaeun 1990 5 15 male gan_xin zhi_si gan_geng) ! 1) = Some 2005"
proof -
  let ?r = "calculateDaeun 1990 5 15 male gan_xin zhi_si gan_geng"
  have m1: "(1::int) \<le> 5" and m2: "(5::int) \<le> 12" by simp_all
  have fwd: "isForward gan_geng male"
    by (simp add: isForward_rule indexOf_def GAN_def)
  have idx: "getGanZhiIndex gan_xin zhi_si = 17"
    using getGanZhiIndex_pair [of 17] by (simp add: GAN_def ZHI_def)
  have r1: "round (of_int (daysInMonth ! nat (5 - 1)) / 2 - of_int 15 + 15 :: rat) = 16"
    by (simp add: daysInMonth_def round_def)
  have r2: "round (of_int \<bar>16\<bar> / 3 * 10 :: rat) = 53"
    unfolding round_def by (rule floor_unique) simp_all
  have age: "of_int (round (of_int \<bar>round (of_int (daysInMonth ! nat (5 - 1)) / 2
                                         - of_int 15 + 15 :: rat)\<bar> / 3 * 10 :: rat)) / 10
             = (53 / 10 :: rat)"
    unfolding r1 r2 by simp
  have fl: "\<lfloor>53 / 10 :: rat\<rfloor> = 5" by (rule floor_unique) simp_all
  have p18: "getGanZhiFromIndex 18 = \<lparr>GanZhi.stem = gan_ren, branch = zhi_wu\<rparr>"
    by (simp add: getGanZhiFromIndex_mod GAN_def ZHI_def)
  note th = daeun_entries [where birthMonth = 5 and birthYear = 1990 and birthDay = 15
      and g = male and monthStem = gan_xin and monthBranch = zhi_si and yearStem = gan_geng,
      OF m1 m2, unfolded Let_def age]
  note s = th [THEN conjunct1] and l = th [THEN conjunct2, THEN conjunct1]
    and all = th [THEN conjunct2, THEN conjunct2]
  have e0: "DaeunEntry.stem (fst ?r ! 0) = gan_ren \<and> DaeunEntry.branch (fst ?r ! 0) = zhi_wu \<and>
     startAge (fst ?r ! 0) = Some (53 / 10) \<and> endAge (fst ?r ! 0) = Some 14 \<and>
     startYear (fst ?r ! 0) = Some 1995"
    using all [rule_format, of 0] by (simp add: fwd idx p18 fl)
  have e1: "startAge (fst ?r ! 1) = Some 15 \<and> endAge (fst ?r ! 1) = Some 24 \<and>
     startYear (fst ?r ! 1) = Some 2005"
    using all [rule_format, of 1] by (simp add: fl)
  from m1 m2 fwd idx s l e0 e1 show ?thesis by blast
qed

text \<open>
  C6 (decade direction rule). For a Year Stem of the table, the walk of \<open>calculateDaeun\<close>
  is forward exactly when the Year Stem's ordinal is even and the subject is male, or the
  ordinal is odd and the subject is female; otherwise it is backward. The walk is read off
  the returned entries: \<open>forward\<close> is the sequence of pairs at \<open>monthPosition + i + 1\<close>,
  \<open>backward\<close> the one at \<open>monthPosition - i - 1\<close>, and the two are never the same.
\<close>

theorem daeun_direction:
  assumes "yearStem \<in> set GAN"
  shows
    "let rule = (even (indexOf GAN yearStem) \<and> g = male) \<or>
                (odd (indexOf GAN yearStem) \<and> g = female);
         monthPosition = int (getGanZhiIndex monthStem monthBranch);
         walk = map (\<lambda>e. (DaeunEntry.stem e, DaeunEntry.branch e))
                  (fst (calculateDaeun birthYear birthMonth birthDay g monthStem monthBranch yearStem));
         forward = map (\<lambda>i. (GanZhi.stem (getGanZhiFromIndex (monthPosition + int i + 1)),
                              GanZhi.branch (getGanZhiFromIndex (monthPosition + int i + 1)))) [0..<13];
         backward = map (\<lambda>i. (GanZhi.stem (getGanZhiFromIndex (monthPosition - int i - 1)),
                               GanZhi.branch (getGanZhiFromIndex (monthPosition - int i - 1)))) [0..<13]
     in 0 \<le> indexOf GAN yearStem \<and>
        (isForward yearStem g \<longleftrightarrow> rule) \<and>
        (walk = forward \<longleftrightarrow> rule) \<and>
        (walk = backward \<longleftrightarrow> \<not> rule) \<and>
        forward \<noteq> backward"
proof -
  define m where "m = int (getGanZhiIndex monthStem monthBranch)"
  define rule where "rule \<longleftrightarrow> (even (indexOf GAN yearStem) \<and> g = male) \<or>
                (odd (indexOf GAN yearStem) \<and> g = female)"
  define pair where "pair = (\<lambda>p. (GanZhi.stem (getGanZhiFromIndex p), GanZhi.branch (getGanZhiFromIndex p)))"
  define forward where "forward = map (\<lambda>i. pair (m + int i + 1)) [0..<13]"
  define backward where "backward = map (\<lambda>i. pair (m - int i - 1)) [0..<13]"
  define walk where "walk = map (\<lambda>e. (DaeunEntry.stem e, DaeunEntry.branch e))
                  (fst (calculateDaeun birthYear birthMonth birthDay g monthStem monthBranch yearStem))"
  obtain k where "k < 10" and "yearStem = GAN ! k"
    using assms by (auto simp add: in_set_conv_nth length_GAN)
  then have ord: "0 \<le> indexOf GAN yearStem" by (simp add: indexOf_GAN_nth)
  have fwd: "isForward yearStem g \<longleftrightarrow> rule"
    unfolding rule_def by (rule isForward_rule)
  have walk: "walk = (if rule then forward else backward)"
    unfolding walk_def forward_def backward_def pair_def fwd [symmetric]
    by (simp add: calculateDaeun_map daeun_entry_def Let_def m_def)
  have "pair (m + 1) \<noteq> pair (m - 1)"
  proof
    assume "pair (m + 1) = pair (m - 1)"
    then have "getGanZhiFromIndex (m + 1) = getGanZhiFromIndex (m - 1)"
      by (simp add: pair_def GanZhi.equality)
    then show False using forward_backward_differ [of m] by simp
  qed
  moreover have "[0..<13] = 0 # [1..<13]" by (simp add: upt_conv_Cons)
  ultimately have differ: "forward \<noteq> backward"
    by (simp add: forward_def backward_def)
  have "(walk = forward \<longleftrightarrow> rule) \<and> (walk = backward \<longleftrightarrow> \<not> rule)"
    using differ by (auto simp add: walk)
  with ord fwd differ show ?thesis
    unfolding Let_def m_def [symmetric] rule_def [symmetric]
    unfolding pair_def [symmetric, unfolded fun_eq_iff, rule_format]
      forward_def [symmetric] backward_def [symmetric] walk_def [symmetric]
    by simp
qed

theorem daeun_direction_witness:
  "gan_jia \<in> set GAN \<and> gan_yi \<in> set GAN \<and>
   indexOf GAN gan_jia = 0 \<and> indexOf GAN gan_yi = 1 \<and>
   isForward gan_jia male \<and> \<not> isForward gan_jia female \<and> \<not> isForward gan_yi male \<and>
   map (\<lambda>e. (DaeunEntry.stem e, DaeunEntry.branch e))
     (fst (calculateDaeun 1990 5 15 male gan_xin zhi_si gan_jia)) =
   map (\<lambda>i. (GanZhi.stem (getGanZhiFromIndex (int (getGanZhiIndex gan_xin zhi_si) + int i + 1)),
              GanZhi.branch (getGanZhiFromIndex (int (getGanZhiIndex gan_xin zhi_si) + int i + 1))))
     [0..<13] \<and>
   map (\<lambda>e. (DaeunEntry.stem e, DaeunEntry.branch e))
     (fst (calculateDaeun 1990 5 15 female gan_xin zhi_si gan_jia)) =
   map (\<lambda>i. (GanZhi.stem (getGanZhiFromIndex (int (getGanZhiIndex gan_xin zhi_si) - int i - 1)),
              GanZhi.branch (getGanZhiFromIndex (int (getGanZhiIndex gan_xin zhi_si) - int i - 1))))
     [0..<13]"
proof -
  have j: "gan_jia \<in> set GAN" and y: "gan_yi \<in> set GAN" by (simp_all add: GAN_def)
  have ij: "indexOf GAN gan_jia = 0" and iy: "indexOf GAN gan_yi = 1"
    by (simp_all add: indexOf_def GAN_def)
  have rm: "((even (0::int) \<and> male = male) \<or> (odd (0::int) \<and> male = female)) = True"
    and rf: "((even (0::int) \<and> female = male) \<or> (odd (0::int) \<and> female = female)) = False"
    and ry: "((even (1::int) \<and> male = male) \<or> (odd (1::int) \<and> male = female)) = False"
    by simp_all
  note a = daeun_direction [OF j, where g = male and birthYear = 1990 and birthMonth = 5
      and birthDay = 15 and monthStem = gan_xin and monthBranch = zhi_si,
      unfolded Let_def ij rm]
  note b = daeun_direction [OF j, where g = female and birthYear = 1990 and birthMonth = 5
      and birthDay = 15 and monthStem = gan_xin and monthBranch = zhi_si,
      unfolded Let_def ij rf]
  note c = daeun_direction [OF y, where g = male and birthYear = 1990 and birthMonth = 5
      and birthDay = 15 and monthStem = gan_xin and monthBranch = zhi_si,
      unfolded Let_def iy ry]
  have fm: "isForward gan_jia male" using a by blast
  have ff: "\<not> isForward gan_jia female" using b by blast
  have fy: "\<not> isForward gan_yi male" using c by blast
  have wf: "map (\<lambda>e. (DaeunEntry.stem e, DaeunEntry.branch e))
     (fst (calculateDaeun 1990 5 15 male gan_xin zhi_si gan_jia)) =
   map (\<lambda>i. (GanZhi.stem (getGanZhiFromIndex (int (getGanZhiIndex gan_xin zhi_si) + int i + 1)),
              GanZhi.branch (getGanZhiFromIndex (int (getGanZhiIndex gan_xin zhi_si) + int i + 1))))
     [0..<13]"
    using a by blast
  have wb: "map (\<lambda>e. (DaeunEntry.stem e, DaeunEntry.branch e))
     (fst (calculateDaeun 1990 5 15 female gan_xin zhi_si gan_jia)) =
   map (\<lambda>i. (GanZhi.stem (getGanZhiFromIndex (int (getGanZhiIndex gan_xin zhi_si) - int i - 1)),
              GanZhi.branch (getGanZhiFromIndex (int (getGanZhiIndex gan_xin zhi_si) - int i - 1))))
     [0..<13]"
    using b by blast
  show ?thesis
    by (rule conjI [OF j conjI [OF y conjI [OF ij conjI [OF iy
          conjI [OF fm conjI [OF ff conjI [OF fy conjI [OF wf wb]]]]]]]])
qed

end
